theory Spec2Isabelle
  imports Main "HOL-Library.Sublist"
begin

section \<open>Reminder.ts\<close>

text \<open>
  Every \<^verbatim>\<open>throw new Error(...)\<close> of the two classes is a constructor of \<open>error\<close>, named
  after the message it carries; \<open>TypeError\<close> is the fault the JavaScript runtime raises
  when a property is read from, written to or called on \<^verbatim>\<open>undefined\<close> or on a value
  that has no such method.
  \<^item> \<open>EmptyDescription\<close>: \<^verbatim>\<open>Error("Do not input an empty description")\<close>
  \<^item> \<open>EmptyTag\<close>: \<^verbatim>\<open>Error("Do not input an empty tag")\<close>
  \<^item> \<open>InvalidIndex\<close>: \<^verbatim>\<open>Error("This index is not valid")\<close>
  \<^item> \<open>NoReminders\<close>: \<^verbatim>\<open>Error("You have no reminders")\<close>
\<close>

datatype error = EmptyDescription | EmptyTag | InvalidIndex | NoReminders | TypeError

text \<open>
  The three private fields of class \<^verbatim>\<open>Reminder\<close>. The getters \<^verbatim>\<open>description\<close>,
  \<^verbatim>\<open>tag\<close> and \<^verbatim>\<open>isCompleted\<close> return the fields as they are, so the record
  selectors stand for both.
\<close>

record Reminder =
  description :: string
  tag :: string
  isCompleted :: bool

definition newReminder :: "string \<Rightarrow> string \<Rightarrow> Reminder" where
  "newReminder d t = \<lparr>description = d, tag = t, isCompleted = False\<rparr>"

text \<open>
  The setters return the outcome together with the object after the call, so that what
  a failed call leaves behind is part of the model. \<^verbatim>\<open>!description\<close> on a string is
  true for the empty string only.
\<close>

definition set_description :: "string \<Rightarrow> Reminder \<Rightarrow> (error + unit) \<times> Reminder" where
  "set_description d r =
     (if d = [] then (Inl EmptyDescription, r)
      else (Inr (), r\<lparr>description := d\<rparr>))"

definition set_tag :: "string \<Rightarrow> Reminder \<Rightarrow> (error + unit) \<times> Reminder" where
  "set_tag t r =
     (if t = [] then (Inl EmptyTag, r)
      else (Inr (), r\<lparr>tag := t\<rparr>))"

definition Reminder_toggleCompletion :: "Reminder \<Rightarrow> Reminder" where
  "Reminder_toggleCompletion r =
     (if \<not> isCompleted r then r\<lparr>isCompleted := True\<rparr>
      else r\<lparr>isCompleted := False\<rparr>)"

section \<open>RemindersHandler.ts\<close>

subsection \<open>State and control flow\<close>

text \<open>
  The state the handler's methods read and write: the private field \<^verbatim>\<open>_reminders\<close>
  (\<open>None\<close> while it is \<^verbatim>\<open>undefined\<close>, which is what the getter \<^verbatim>\<open>reminders\<close> tests
  for) and the lines written by the logger. Indices are JavaScript numbers; the model
  takes the integers among them.
\<close>

record program_state =
  priv_reminders :: "Reminder list option"
  log_output :: "string list"

type_synonym 'a prog = "program_state \<Rightarrow> (error + 'a) \<times> program_state"

definition ret :: "'a \<Rightarrow> 'a prog" where
  "ret v s = (Inr v, s)"

definition throw :: "error \<Rightarrow> 'a prog" where
  "throw e s = (Inl e, s)"

text \<open>Sequencing: an exception of the first part skips the rest.\<close>

definition bind :: "'a prog \<Rightarrow> ('a \<Rightarrow> 'b prog) \<Rightarrow> 'b prog" where
  "bind m f s = (case m s of (Inl e, s') \<Rightarrow> (Inl e, s') | (Inr v, s') \<Rightarrow> f v s')"

text \<open>
  \<^verbatim>\<open>this._reminders.m\<close>: reading a member of \<^verbatim>\<open>undefined\<close> raises a TypeError.
\<close>

definition deref_reminders :: "Reminder list prog" where
  "deref_reminders s =
     (case priv_reminders s of None \<Rightarrow> (Inl TypeError, s) | Some rs \<Rightarrow> (Inr rs, s))"

text \<open>
  \<^verbatim>\<open>xs[i]\<close> on a JavaScript array: \<^verbatim>\<open>undefined\<close> (here \<open>None\<close>) outside
  \<open>0 .. length - 1\<close>, with no fault.
\<close>

definition array_get :: "'a list \<Rightarrow> int \<Rightarrow> 'a option" where
  "array_get xs i = (if 0 \<le> i \<and> i < int (length xs) then Some (xs ! nat i) else None)"

text \<open>
  A JavaScript string is modelled by the list of the characters of its encoding. The two
  classes compare strings, test them for emptiness and hand them to the runtime's
  \<^verbatim>\<open>String.prototype.toLowerCase\<close> and to the fuzzy matcher; neither of the two is code
  of the repository, and both are parameters of the methods that reach them. Nothing is
  assumed about them, so what is proved holds for the case mapping of the runtime,
  whatever it does to letters outside \<open>A .. Z\<close>.
\<close>

text \<open>
  Modelled from the spec: \<^verbatim>\<open>Logger.log\<close> of \<^verbatim>\<open>util/ReminderLogger\<close>, which is not
  among the sources. The spec describes it as emitting an informational notice that has
  no effect on the data; the model appends the notice to the log.
\<close>

definition Logger_log :: "string \<Rightarrow> unit prog" where
  "Logger_log msg s = (Inr (), s\<lparr>log_output := log_output s @ [msg]\<rparr>)"

subsection \<open>The methods\<close>

definition constructor :: "program_state \<Rightarrow> program_state" where
  "constructor s = s\<lparr>priv_reminders := Some []\<rparr>"

definition reminders :: "Reminder list prog" where
  "reminders s =
     (case priv_reminders s of None \<Rightarrow> (Inl NoReminders, s) | Some rs \<Rightarrow> (Inr rs, s))"

definition addReminder :: "string \<Rightarrow> string \<Rightarrow> unit prog" where
  "addReminder d t =
     bind deref_reminders (\<lambda>rs s.
       (Inr (), s\<lparr>priv_reminders := Some (rs @ [newReminder d t])\<rparr>))"

definition size_h :: "nat prog" where
  "size_h = bind deref_reminders (\<lambda>rs. ret (length rs))"

text \<open>\<^verbatim>\<open>||\<close> evaluates its right operand only when the left one is false.\<close>

definition isIndexValid :: "int \<Rightarrow> bool prog" where
  "isIndexValid index =
     bind size_h (\<lambda>n.
       if n = 0 then ret False
       else if index < 0 then ret False
       else bind size_h (\<lambda>m.
         if index + 1 > int m then ret False
         else ret True))"

text \<open>The result is \<open>None\<close> where the method returns \<^verbatim>\<open>undefined\<close>.\<close>

definition getReminder :: "int \<Rightarrow> Reminder option prog" where
  "getReminder index =
     bind (isIndexValid index) (\<lambda>valid.
       if \<not> valid then throw InvalidIndex
       else bind deref_reminders (\<lambda>rs. ret (array_get rs (index - 1))))"

text \<open>
  \<^verbatim>\<open>this._reminders[index-1].description = description\<close>: the element is read first;
  assigning to a property of \<^verbatim>\<open>undefined\<close> raises a TypeError, otherwise the setter
  runs on the element, which is updated in place.
\<close>

definition modifyReminder :: "int \<Rightarrow> string \<Rightarrow> unit prog" where
  "modifyReminder index d =
     bind deref_reminders (\<lambda>rs.
       case array_get rs (index - 1) of
         None \<Rightarrow> throw TypeError
       | Some r \<Rightarrow>
           (case set_description d r of
              (res, r') \<Rightarrow> (\<lambda>s. (res, s\<lparr>priv_reminders := Some (rs[nat (index - 1) := r'])\<rparr>))))"

definition toggleCompletion :: "int \<Rightarrow> unit prog" where
  "toggleCompletion index =
     bind deref_reminders (\<lambda>rs.
       case array_get rs (index - 1) of
         None \<Rightarrow> throw TypeError
       | Some r \<Rightarrow>
           (\<lambda>s. (Inr (), s\<lparr>priv_reminders :=
                    Some (rs[nat (index - 1) := Reminder_toggleCompletion r])\<rparr>)))"

definition searchTags :: "(string \<Rightarrow> string) \<Rightarrow> string \<Rightarrow> Reminder list prog" where
  "searchTags toLowerCase keyword =
     bind deref_reminders (\<lambda>rs.
       ret (filter (\<lambda>reminder. toLowerCase (tag reminder) = toLowerCase keyword) rs))"

text \<open>
  The package \<^verbatim>\<open>fuzzy-search\<close> is not part of the repository: \<open>fuzzy haystack keyword\<close>
  stands for \<^verbatim>\<open>new FuzzySearch(haystack).search(keyword)\<close> and is a parameter of the
  two methods that reach it.
\<close>

definition searchDescriptions ::
  "(string list \<Rightarrow> string \<Rightarrow> string list) \<Rightarrow> string \<Rightarrow> Reminder list prog" where
  "searchDescriptions fuzzy keyword =
     bind (Logger_log ''Could not find based on keyword, now searching based on description'')
       (\<lambda>_. bind reminders (\<lambda>all.
          let reminderDesc = map description all;
              result = fuzzy reminderDesc keyword
          in bind deref_reminders (\<lambda>rs.
               ret (filter (\<lambda>reminder. description reminder \<in> set result) rs))))"

definition search ::
  "(string \<Rightarrow> string) \<Rightarrow> (string list \<Rightarrow> string \<Rightarrow> string list) \<Rightarrow> string
     \<Rightarrow> Reminder list prog" where
  "search toLowerCase fuzzy keyword =
     bind (searchTags toLowerCase keyword) (\<lambda>tagResults.
       if length tagResults = 0 then searchDescriptions fuzzy keyword
       else ret tagResults)"

subsection \<open>groupByTag\<close>

text \<open>
  The object \<^verbatim>\<open>groupings\<close> is the list of its own properties in the order of their
  creation. It is created by \<^verbatim>\<open>{}\<close>, so it inherits the properties of
  \<^verbatim>\<open>Object.prototype\<close>, and the operator \<^verbatim>\<open>in\<close> finds those too.
\<close>

type_synonym groupings = "(string \<times> Reminder list) list"

definition objectPrototypeKeys :: "string list" where
  "objectPrototypeKeys =
     [''constructor'', ''__defineGetter__'', ''__defineSetter__'', ''hasOwnProperty'',
      ''__lookupGetter__'', ''__lookupSetter__'', ''isPrototypeOf'',
      ''propertyIsEnumerable'', ''toString'', ''valueOf'', ''__proto__'',
      ''toLocaleString'']"

definition has_property :: "string \<Rightarrow> groupings \<Rightarrow> bool" where
  "has_property k g = (k \<in> set (map fst g) \<or> k \<in> set objectPrototypeKeys)"

text \<open>\<^verbatim>\<open>groupings[k].push(reminder)\<close> on an own property: the array grows in place.\<close>

definition push_group :: "string \<Rightarrow> Reminder \<Rightarrow> groupings \<Rightarrow> groupings" where
  "push_group k r g = map (\<lambda>(k', v). if k' = k then (k', v @ [r]) else (k', v)) g"

text \<open>
  The callback of \<^verbatim>\<open>forEach\<close>. Where \<^verbatim>\<open>in\<close> holds through the prototype only,
  \<^verbatim>\<open>groupings[reminder.tag]\<close> is a value without a method \<^verbatim>\<open>push\<close>, and the call
  raises a TypeError.
\<close>

definition group_step :: "Reminder \<Rightarrow> groupings \<Rightarrow> error + groupings" where
  "group_step reminder g =
     (if has_property (tag reminder) g then
        (case map_of g (tag reminder) of
           Some _ \<Rightarrow> Inr (push_group (tag reminder) reminder g)
         | None \<Rightarrow> Inl TypeError)
      else Inr (g @ [(tag reminder, [reminder])]))"

fun forEach_group :: "Reminder list \<Rightarrow> groupings \<Rightarrow> error + groupings" where
  "forEach_group [] g = Inr g"
| "forEach_group (reminder # rs) g =
     (case group_step reminder g of
        Inl e \<Rightarrow> Inl e
      | Inr g' \<Rightarrow> forEach_group rs g')"

definition groupByTag :: "groupings prog" where
  "groupByTag =
     bind deref_reminders (\<lambda>rs.
       case forEach_group rs [] of
         Inl e \<Rightarrow> throw e
       | Inr g \<Rightarrow> ret g)"

text \<open>
  The order in which JavaScript enumerates the own properties of an object
  (\<^verbatim>\<open>Object.keys\<close>, \<^verbatim>\<open>for ... in\<close>): the keys that are array indices, that is the
  canonical decimal numerals below \<open>2^32 - 1\<close>, in ascending numeric order, then the
  other keys in the order of their creation.
\<close>

definition is_digit :: "char \<Rightarrow> bool" where
  "is_digit c = (let n = (of_char c :: nat) in 48 \<le> n \<and> n \<le> 57)"

definition dec_val :: "string \<Rightarrow> int" where
  "dec_val s = foldl (\<lambda>a c. 10 * a + (of_char c - 48)) 0 s"

definition is_array_index :: "string \<Rightarrow> bool" where
  "is_array_index s =
     (case s of
        [] \<Rightarrow> False
      | c # cs \<Rightarrow>
          list_all is_digit s \<and> (if c = CHR ''0'' then cs = [] else True)
          \<and> dec_val s < 4294967295)"

definition ownKeys :: "groupings \<Rightarrow> string list" where
  "ownKeys g =
     sort_key dec_val (filter is_array_index (map fst g))
     @ filter (\<lambda>k. \<not> is_array_index k) (map fst g)"

subsection \<open>Reachable states\<close>

text \<open>
  The states a handler can be in: the constructor has run, and after it any of the public
  methods, in any order and with any arguments, whether they return or raise. The
  getter, \<^verbatim>\<open>getReminder\<close>, \<^verbatim>\<open>search\<close> and \<^verbatim>\<open>groupByTag\<close> hand out references to the
  array and to the reminders in it, so the last rule lets a caller change the contents
  of the array in any way; no caller can make the private field \<^verbatim>\<open>undefined\<close>.
\<close>

inductive reachable :: "program_state \<Rightarrow> bool" where
  created: "reachable (constructor s)"
| after_reminders: "reachable s \<Longrightarrow> reachable (snd (reminders s))"
| after_addReminder: "reachable s \<Longrightarrow> reachable (snd (addReminder d t s))"
| after_getReminder: "reachable s \<Longrightarrow> reachable (snd (getReminder index s))"
| after_isIndexValid: "reachable s \<Longrightarrow> reachable (snd (isIndexValid index s))"
| after_size: "reachable s \<Longrightarrow> reachable (snd (size_h s))"
| after_modifyReminder: "reachable s \<Longrightarrow> reachable (snd (modifyReminder index d s))"
| after_toggleCompletion: "reachable s \<Longrightarrow> reachable (snd (toggleCompletion index s))"
| after_search: "reachable s \<Longrightarrow> reachable (snd (search toLowerCase fuzzy keyword s))"
| after_groupByTag: "reachable s \<Longrightarrow> reachable (snd (groupByTag s))"
| through_alias:
    "reachable s \<Longrightarrow> priv_reminders s = Some rs \<Longrightarrow> reachable (s\<lparr>priv_reminders := Some rs'\<rparr>)"

subsection \<open>Example collections\<close>

text \<open>The object before its constructor has run, with nothing logged.\<close>

definition fresh :: program_state where
  "fresh = \<lparr>priv_reminders = None, log_output = []\<rparr>"

definition one_reminder :: program_state where
  "one_reminder = snd (addReminder ''buy milk'' ''shopping'' (constructor fresh))"

definition two_reminders :: program_state where
  "two_reminders = snd (addReminder ''buy shoes'' ''errand'' one_reminder)"

definition work_home :: program_state where
  "work_home =
     snd (addReminder ''call mum'' ''Work''
       (snd (addReminder ''water plants'' ''Home''
         (snd (addReminder ''send invoice'' ''work''
           (snd (addReminder ''write report'' ''Work'' (constructor fresh))))))))"

definition numeric_tags :: program_state where
  "numeric_tags =
     snd (addReminder ''second'' ''1'' (snd (addReminder ''first'' ''2'' (constructor fresh))))"

definition three_reminders :: program_state where
  "three_reminders = snd (addReminder ''buy stamps'' ''Errand'' two_reminders)"

text \<open>A collaborator for the examples: it keeps the candidates that start with the query.\<close>

definition prefix_fuzzy :: "string list \<Rightarrow> string \<Rightarrow> string list" where
  "prefix_fuzzy haystack keyword = filter (prefix keyword) haystack"

text \<open>
  A case mapping for the examples. It lowers the letters \<open>A .. Z\<close> and is applied below
  to strings of letters \<open>A .. Z\<close>, \<open>a .. z\<close> and spaces only, where the runtime's
  \<^verbatim>\<open>toLowerCase\<close> does the same; it is not a model of the runtime on other strings.
\<close>

definition ascii_lower :: "string \<Rightarrow> string" where
  "ascii_lower s =
     map (\<lambda>c. case map_of (zip ''ABCDEFGHIJKLMNOPQRSTUVWXYZ'' ''abcdefghijklmnopqrstuvwxyz'') c of
               Some l \<Rightarrow> l
             | None \<Rightarrow> c) s"

section \<open>The methods on a constructed handler\<close>

lemma deref_reminders_Some:
  "priv_reminders s = Some rs \<Longrightarrow> deref_reminders s = (Inr rs, s)"
  by (simp add: deref_reminders_def)

lemma reminders_Some:
  "priv_reminders s = Some rs \<Longrightarrow> reminders s = (Inr rs, s)"
  by (simp add: reminders_def)

lemma size_h_Some:
  "priv_reminders s = Some rs \<Longrightarrow> size_h s = (Inr (length rs), s)"
  by (simp add: size_h_def bind_def ret_def deref_reminders_Some)

lemma isIndexValid_Some:
  "priv_reminders s = Some rs \<Longrightarrow>
     isIndexValid index s = (Inr (0 \<le> index \<and> index < int (length rs)), s)"
  by (auto simp add: isIndexValid_def bind_def ret_def size_h_Some)

lemma getReminder_Some:
  "priv_reminders s = Some rs \<Longrightarrow>
     getReminder index s =
       (if 0 \<le> index \<and> index < int (length rs) then Inr (array_get rs (index - 1))
        else Inl InvalidIndex, s)"
  by (simp add: getReminder_def bind_def ret_def throw_def isIndexValid_Some
      deref_reminders_Some)

lemma addReminder_Some:
  "priv_reminders s = Some rs \<Longrightarrow>
     addReminder d t s = (Inr (), s\<lparr>priv_reminders := Some (rs @ [newReminder d t])\<rparr>)"
  by (simp add: addReminder_def bind_def deref_reminders_Some)

lemma modifyReminder_Some:
  "priv_reminders s = Some rs \<Longrightarrow>
     modifyReminder index d s =
       (if 1 \<le> index \<and> index \<le> int (length rs) then
          (if d = [] then (Inl EmptyDescription, s)
           else (Inr (), s\<lparr>priv_reminders :=
                   Some (rs[nat (index - 1) := (rs ! nat (index - 1))\<lparr>description := d\<rparr>])\<rparr>))
        else (Inl TypeError, s))"
  by (auto simp add: modifyReminder_def bind_def throw_def deref_reminders_Some array_get_def
      set_description_def)

lemma toggleCompletion_Some:
  "priv_reminders s = Some rs \<Longrightarrow>
     toggleCompletion index s =
       (if 1 \<le> index \<and> index \<le> int (length rs) then
          (Inr (), s\<lparr>priv_reminders :=
             Some (rs[nat (index - 1) :=
               (rs ! nat (index - 1))\<lparr>isCompleted := \<not> isCompleted (rs ! nat (index - 1))\<rparr>])\<rparr>)
        else (Inl TypeError, s))"
  by (auto simp add: toggleCompletion_def bind_def throw_def deref_reminders_Some array_get_def
      Reminder_toggleCompletion_def)

lemma searchTags_Some:
  "priv_reminders s = Some rs \<Longrightarrow>
     searchTags toLowerCase keyword s =
       (Inr (filter (\<lambda>r. toLowerCase (tag r) = toLowerCase keyword) rs), s)"
  by (simp add: searchTags_def bind_def ret_def deref_reminders_Some)

lemma searchDescriptions_Some:
  "priv_reminders s = Some rs \<Longrightarrow>
     searchDescriptions fuzzy keyword s =
       (Inr (filter (\<lambda>r. description r \<in> set (fuzzy (map description rs) keyword)) rs),
        s\<lparr>log_output := log_output s
           @ [''Could not find based on keyword, now searching based on description'']\<rparr>)"
  by (simp add: searchDescriptions_def bind_def ret_def Logger_log_def reminders_def
      deref_reminders_def)

lemma search_Some:
  "priv_reminders s = Some rs \<Longrightarrow>
     search toLowerCase fuzzy keyword s =
       (if filter (\<lambda>r. toLowerCase (tag r) = toLowerCase keyword) rs = []
        then searchDescriptions fuzzy keyword s
        else (Inr (filter (\<lambda>r. toLowerCase (tag r) = toLowerCase keyword) rs), s))"
  by (simp add: search_def bind_def ret_def searchTags_Some)

lemma groupByTag_Some:
  "priv_reminders s = Some rs \<Longrightarrow>
     groupByTag s = (case forEach_group rs [] of Inl e \<Rightarrow> Inl e | Inr g \<Rightarrow> Inr g, s)"
  by (simp add: groupByTag_def bind_def ret_def throw_def deref_reminders_Some
      split: sum.splits)

subsection \<open>The example collections\<close>

lemma constructor_fresh: "constructor fresh = \<lparr>priv_reminders = Some [], log_output = []\<rparr>"
  by (simp add: constructor_def fresh_def)

lemma one_reminder_eq:
  "one_reminder =
     \<lparr>priv_reminders = Some [\<lparr>description = ''buy milk'', tag = ''shopping'', isCompleted = False\<rparr>],
      log_output = []\<rparr>"
  by (simp add: one_reminder_def constructor_fresh addReminder_Some newReminder_def)

lemma two_reminders_eq:
  "two_reminders =
     \<lparr>priv_reminders = Some
        [\<lparr>description = ''buy milk'', tag = ''shopping'', isCompleted = False\<rparr>,
         \<lparr>description = ''buy shoes'', tag = ''errand'', isCompleted = False\<rparr>],
      log_output = []\<rparr>"
  by (simp add: two_reminders_def one_reminder_eq addReminder_Some newReminder_def)

lemma work_home_eq:
  "work_home =
     \<lparr>priv_reminders = Some
        [\<lparr>description = ''write report'', tag = ''Work'', isCompleted = False\<rparr>,
         \<lparr>description = ''send invoice'', tag = ''work'', isCompleted = False\<rparr>,
         \<lparr>description = ''water plants'', tag = ''Home'', isCompleted = False\<rparr>,
         \<lparr>description = ''call mum'', tag = ''Work'', isCompleted = False\<rparr>],
      log_output = []\<rparr>"
  by (simp add: work_home_def constructor_fresh addReminder_Some newReminder_def)

lemma three_reminders_eq:
  "three_reminders =
     \<lparr>priv_reminders = Some
        [\<lparr>description = ''buy milk'', tag = ''shopping'', isCompleted = False\<rparr>,
         \<lparr>description = ''buy shoes'', tag = ''errand'', isCompleted = False\<rparr>,
         \<lparr>description = ''buy stamps'', tag = ''Errand'', isCompleted = False\<rparr>],
      log_output = []\<rparr>"
  by (simp add: three_reminders_def two_reminders_eq addReminder_Some newReminder_def)

lemma numeric_tags_eq:
  "numeric_tags =
     \<lparr>priv_reminders = Some
        [\<lparr>description = ''first'', tag = ''2'', isCompleted = False\<rparr>,
         \<lparr>description = ''second'', tag = ''1'', isCompleted = False\<rparr>],
      log_output = []\<rparr>"
  by (simp add: numeric_tags_def constructor_fresh addReminder_Some newReminder_def)

section \<open>Positions\<close>

text \<open>
  \<^verbatim>\<open>isIndexValid\<close> accepts the offsets \<open>0 .. size - 1\<close>, while \<^verbatim>\<open>getReminder\<close>,
  \<^verbatim>\<open>modifyReminder\<close> and \<^verbatim>\<open>toggleCompletion\<close> read the element at \<open>index - 1\<close>, that is
  they take positions \<open>1 .. size\<close>.
\<close>

lemma size_h_addReminder:
  "priv_reminders s = Some rs \<Longrightarrow>
     fst (size_h (snd (addReminder d t s))) = Inr (length rs + 1)"
  by (simp add: addReminder_Some size_h_Some)

lemma getReminder_raises_iff:
  "priv_reminders s = Some rs \<Longrightarrow>
     fst (getReminder index s) = Inl InvalidIndex \<longleftrightarrow> fst (isIndexValid index s) = Inr False"
  by (simp add: getReminder_Some isIndexValid_Some)

lemma getReminder_at_size:
  "priv_reminders s = Some rs \<Longrightarrow> fst (getReminder (int (length rs)) s) = Inl InvalidIndex"
  by (simp add: getReminder_Some)

lemma getReminder_between:
  "priv_reminders s = Some rs \<Longrightarrow> 1 \<le> index \<Longrightarrow> index < int (length rs) \<Longrightarrow>
     getReminder index s = (Inr (Some (rs ! nat (index - 1))), s)"
  by (simp add: getReminder_Some array_get_def)

text \<open>
  C1 states that \<^verbatim>\<open>isIndexValid(p)\<close> is true exactly for \<open>1 \<le> p \<le> size()\<close>. The
  method tests \<open>0 \<le> p \<le> size() - 1\<close> instead: on the collection holding one reminder it
  rejects position 1 and accepts position 0.
\<close>

theorem isIndexValid_is_zero_based:
  "fst (isIndexValid 1 one_reminder) = Inr False
   \<and> fst (isIndexValid 0 one_reminder) = Inr True"
  by (simp add: one_reminder_eq isIndexValid_Some)

text \<open>
  C2 states that \<^verbatim>\<open>addReminder\<close> increments \<^verbatim>\<open>size()\<close> by one and that the new reminder
  is retrievable by \<^verbatim>\<open>getReminder\<close> at position \<^verbatim>\<open>size()\<close>. The size of the empty
  collection does go from 0 to 1, but \<^verbatim>\<open>getReminder(1)\<close> then raises the error of an
  invalid index.
\<close>

theorem added_reminder_not_retrievable:
  "fst (size_h (constructor fresh)) = Inr 0
   \<and> fst (size_h one_reminder) = Inr 1
   \<and> fst (getReminder 1 one_reminder) = Inl InvalidIndex"
  by (simp add: one_reminder_eq constructor_fresh size_h_Some getReminder_Some)

text \<open>
  C4 states that \<^verbatim>\<open>getReminder(p)\<close> raises exactly when \<^verbatim>\<open>isIndexValid(p)\<close> is false
  and otherwise returns the reminder at offset \<open>p - 1\<close>, leaving the collection as it
  was. On the collection holding one reminder position 0 is accepted, and the method
  returns \<^verbatim>\<open>undefined\<close>, the value of \<^verbatim>\<open>_reminders[-1]\<close>, where no reminder is stored.
\<close>

theorem getReminder_zero_is_undefined:
  "fst (isIndexValid 0 one_reminder) = Inr True
   \<and> getReminder 0 one_reminder = (Inr None, one_reminder)"
  by (simp add: one_reminder_eq isIndexValid_Some getReminder_Some array_get_def)

text \<open>
  C8 states that \<^verbatim>\<open>modifyReminder\<close> and \<^verbatim>\<open>toggleCompletion\<close> work on the reminder at
  offset \<open>p - 1\<close> where \<^verbatim>\<open>isIndexValid(p)\<close> holds and fault elsewhere. On the collection
  holding one reminder they succeed at position 1, which \<^verbatim>\<open>isIndexValid\<close> rejects, and
  raise a TypeError at position 0, which it accepts.
\<close>

theorem mutators_disagree_with_isIndexValid:
  "fst (isIndexValid 1 one_reminder) = Inr False
   \<and> modifyReminder 1 ''buy bread'' one_reminder =
       (Inr (), \<lparr>priv_reminders =
          Some [\<lparr>description = ''buy bread'', tag = ''shopping'', isCompleted = False\<rparr>],
          log_output = []\<rparr>)
   \<and> toggleCompletion 1 one_reminder =
       (Inr (), \<lparr>priv_reminders =
          Some [\<lparr>description = ''buy milk'', tag = ''shopping'', isCompleted = True\<rparr>],
          log_output = []\<rparr>)
   \<and> fst (isIndexValid 0 one_reminder) = Inr True
   \<and> modifyReminder 0 ''buy bread'' one_reminder = (Inl TypeError, one_reminder)
   \<and> toggleCompletion 0 one_reminder = (Inl TypeError, one_reminder)"
  by (simp add: one_reminder_eq isIndexValid_Some modifyReminder_Some toggleCompletion_Some)

section \<open>Setters of a reminder\<close>

text \<open>
  C7: with an empty value the setters of the description and of the tag raise their
  validation error and leave the reminder as it was; with any other value they succeed
  and the getter returns the new value.
\<close>

theorem setters_validate:
  "(v = [] \<longrightarrow>
      set_description v r = (Inl EmptyDescription, r) \<and> set_tag v r = (Inl EmptyTag, r))
   \<and> (v \<noteq> [] \<longrightarrow>
      fst (set_description v r) = Inr () \<and> description (snd (set_description v r)) = v
      \<and> fst (set_tag v r) = Inr () \<and> tag (snd (set_tag v r)) = v)"
  by (simp add: set_description_def set_tag_def)

theorem setters_validate_witness:
  "set_description '''' (newReminder ''buy milk'' ''shopping'')
     = (Inl EmptyDescription, newReminder ''buy milk'' ''shopping'')
   \<and> description (snd (set_description '''' (newReminder ''buy milk'' ''shopping''))) = ''buy milk''
   \<and> set_tag '''' (newReminder ''buy milk'' ''shopping'')
     = (Inl EmptyTag, newReminder ''buy milk'' ''shopping'')
   \<and> tag (snd (set_tag '''' (newReminder ''buy milk'' ''shopping''))) = ''shopping''
   \<and> fst (set_description ''buy bread'' (newReminder ''buy milk'' ''shopping'')) = Inr ()
   \<and> description (snd (set_description ''buy bread'' (newReminder ''buy milk'' ''shopping'')))
     = ''buy bread''
   \<and> fst (set_tag ''food'' (newReminder ''buy milk'' ''shopping'')) = Inr ()
   \<and> tag (snd (set_tag ''food'' (newReminder ''buy milk'' ''shopping''))) = ''food''"
  using setters_validate [of "''''" "newReminder ''buy milk'' ''shopping''"]
    setters_validate [of "''buy bread''" "newReminder ''buy milk'' ''shopping''"]
    setters_validate [of "''food''" "newReminder ''buy milk'' ''shopping''"]
  by (simp add: newReminder_def)

section \<open>Search\<close>

lemma ascii_lower_examples:
  "ascii_lower ''shopping'' = ''shopping''" "ascii_lower ''errand'' = ''errand''"
  "ascii_lower ''buy'' = ''buy''" "ascii_lower ''SHOPPING'' = ''shopping''"
  "ascii_lower ''Errand'' = ''errand''" "ascii_lower ''ERRAND'' = ''errand''"
  by (simp_all add: ascii_lower_def)

text \<open>
  C3: \<^verbatim>\<open>search\<close> returns the reminders whose tag equals the keyword once both have gone
  through the runtime's \<^verbatim>\<open>toLowerCase\<close>, whenever there is such a reminder, and only
  when there is none the reminders whose description is among the collaborator's
  matches. This holds whatever \<^verbatim>\<open>toLowerCase\<close> and the collaborator compute.
\<close>

theorem search_two_stages:
  assumes "priv_reminders s = Some rs"
  shows "fst (search toLowerCase fuzzy keyword s) =
     Inr (if \<exists>r \<in> set rs. toLowerCase (tag r) = toLowerCase keyword
          then filter (\<lambda>r. toLowerCase (tag r) = toLowerCase keyword) rs
          else filter (\<lambda>r. description r \<in> set (fuzzy (map description rs) keyword)) rs)"
proof (cases "\<exists>r \<in> set rs. toLowerCase (tag r) = toLowerCase keyword")
  case True
  then have "filter (\<lambda>r. toLowerCase (tag r) = toLowerCase keyword) rs \<noteq> []"
    by (simp add: filter_empty_conv)
  with True assms show ?thesis
    by (simp add: search_Some)
next
  case False
  then have "filter (\<lambda>r. toLowerCase (tag r) = toLowerCase keyword) rs = []"
    by (simp add: filter_empty_conv)
  with False assms show ?thesis
    by (simp add: search_Some searchDescriptions_Some)
qed

theorem search_two_stages_witness:
  "priv_reminders two_reminders =
     Some [\<lparr>description = ''buy milk'', tag = ''shopping'', isCompleted = False\<rparr>,
           \<lparr>description = ''buy shoes'', tag = ''errand'', isCompleted = False\<rparr>]
   \<and> fst (search ascii_lower prefix_fuzzy ''SHOPPING'' two_reminders) =
       Inr [\<lparr>description = ''buy milk'', tag = ''shopping'', isCompleted = False\<rparr>]
   \<and> fst (search ascii_lower prefix_fuzzy ''buy'' two_reminders) =
       Inr [\<lparr>description = ''buy milk'', tag = ''shopping'', isCompleted = False\<rparr>,
            \<lparr>description = ''buy shoes'', tag = ''errand'', isCompleted = False\<rparr>]"
proof -
  let ?rs = "[\<lparr>description = ''buy milk'', tag = ''shopping'', isCompleted = False\<rparr>,
              \<lparr>description = ''buy shoes'', tag = ''errand'', isCompleted = False\<rparr>]"
  have h: "priv_reminders two_reminders = Some ?rs"
    by (simp add: two_reminders_eq)
  show ?thesis
    using h search_two_stages [OF h, of ascii_lower prefix_fuzzy "''SHOPPING''"]
      search_two_stages [OF h, of ascii_lower prefix_fuzzy "''buy''"]
    by (simp add: ascii_lower_examples prefix_fuzzy_def)
qed

text \<open>
  C6: both stages of \<^verbatim>\<open>search\<close> keep the order of the collection. The tag stage returns
  the stored list filtered by the comparison of the tags, the description stage returns
  the stored list filtered by membership of the description in the collaborator's
  result, so it depends on the set of the collaborator's matches only, not on their
  order; \<^verbatim>\<open>search\<close> returns the result of the tag stage unless that is empty, and
  otherwise that of the description stage, and what it returns is the collection with
  some reminders left out.
\<close>

theorem search_keeps_order:
  assumes "priv_reminders s = Some rs"
  shows "fst (searchTags toLowerCase keyword s) =
       Inr (filter (\<lambda>r. toLowerCase (tag r) = toLowerCase keyword) rs)
     \<and> fst (searchDescriptions fuzzy keyword s) =
       Inr (filter (\<lambda>r. description r \<in> set (fuzzy (map description rs) keyword)) rs)
     \<and> (set (fuzzy' (map description rs) keyword) = set (fuzzy (map description rs) keyword)
          \<longrightarrow> fst (searchDescriptions fuzzy' keyword s) = fst (searchDescriptions fuzzy keyword s))
     \<and> fst (search toLowerCase fuzzy keyword s) =
       Inr (if filter (\<lambda>r. toLowerCase (tag r) = toLowerCase keyword) rs = []
            then filter (\<lambda>r. description r \<in> set (fuzzy (map description rs) keyword)) rs
            else filter (\<lambda>r. toLowerCase (tag r) = toLowerCase keyword) rs)
     \<and> (\<exists>res. fst (search toLowerCase fuzzy keyword s) = Inr res \<and> subseq res rs)"
  using assms
  by (simp add: searchTags_Some searchDescriptions_Some search_Some)

theorem search_keeps_order_witness:
  "priv_reminders three_reminders =
     Some [\<lparr>description = ''buy milk'', tag = ''shopping'', isCompleted = False\<rparr>,
           \<lparr>description = ''buy shoes'', tag = ''errand'', isCompleted = False\<rparr>,
           \<lparr>description = ''buy stamps'', tag = ''Errand'', isCompleted = False\<rparr>]
   \<and> fst (searchTags ascii_lower ''ERRAND'' three_reminders) =
       Inr [\<lparr>description = ''buy shoes'', tag = ''errand'', isCompleted = False\<rparr>,
            \<lparr>description = ''buy stamps'', tag = ''Errand'', isCompleted = False\<rparr>]
   \<and> fst (search ascii_lower (\<lambda>h k. rev (prefix_fuzzy h k)) ''ERRAND'' three_reminders) =
       Inr [\<lparr>description = ''buy shoes'', tag = ''errand'', isCompleted = False\<rparr>,
            \<lparr>description = ''buy stamps'', tag = ''Errand'', isCompleted = False\<rparr>]
   \<and> rev (prefix_fuzzy [''buy milk'', ''buy shoes'', ''buy stamps''] ''buy'') =
       [''buy stamps'', ''buy shoes'', ''buy milk'']
   \<and> fst (searchDescriptions (\<lambda>h k. rev (prefix_fuzzy h k)) ''buy'' three_reminders) =
       Inr [\<lparr>description = ''buy milk'', tag = ''shopping'', isCompleted = False\<rparr>,
            \<lparr>description = ''buy shoes'', tag = ''errand'', isCompleted = False\<rparr>,
            \<lparr>description = ''buy stamps'', tag = ''Errand'', isCompleted = False\<rparr>]
   \<and> fst (searchDescriptions prefix_fuzzy ''buy'' three_reminders) =
       fst (searchDescriptions (\<lambda>h k. rev (prefix_fuzzy h k)) ''buy'' three_reminders)
   \<and> fst (searchDescriptions prefix_fuzzy ''buy s'' three_reminders) =
       Inr [\<lparr>description = ''buy shoes'', tag = ''errand'', isCompleted = False\<rparr>,
            \<lparr>description = ''buy stamps'', tag = ''Errand'', isCompleted = False\<rparr>]
   \<and> fst (search ascii_lower (\<lambda>h k. rev (prefix_fuzzy h k)) ''buy'' three_reminders) =
       Inr [\<lparr>description = ''buy milk'', tag = ''shopping'', isCompleted = False\<rparr>,
            \<lparr>description = ''buy shoes'', tag = ''errand'', isCompleted = False\<rparr>,
            \<lparr>description = ''buy stamps'', tag = ''Errand'', isCompleted = False\<rparr>]"
proof -
  let ?rs = "[\<lparr>description = ''buy milk'', tag = ''shopping'', isCompleted = False\<rparr>,
              \<lparr>description = ''buy shoes'', tag = ''errand'', isCompleted = False\<rparr>,
              \<lparr>description = ''buy stamps'', tag = ''Errand'', isCompleted = False\<rparr>]"
  let ?reversed = "\<lambda>h k. rev (prefix_fuzzy h k)"
  have h: "priv_reminders three_reminders = Some ?rs"
    by (simp add: three_reminders_eq)
  have same: "set (prefix_fuzzy (map description ?rs) ''buy'')
      = set (?reversed (map description ?rs) ''buy'')"
    by simp
  show ?thesis
    using h same
      search_keeps_order [OF h, of ascii_lower "''ERRAND''" ?reversed ?reversed]
      search_keeps_order [OF h, of ascii_lower "''buy''" ?reversed prefix_fuzzy]
      search_keeps_order [OF h, of ascii_lower "''buy s''" prefix_fuzzy prefix_fuzzy]
    by (simp add: ascii_lower_examples prefix_fuzzy_def)
qed

section \<open>Queries\<close>

text \<open>
  C10: \<^verbatim>\<open>search\<close> and \<^verbatim>\<open>groupByTag\<close> leave the collection unchanged, whether they
  return or raise; \<^verbatim>\<open>search\<close> may add a line to the log.
\<close>

theorem queries_leave_collection:
  "priv_reminders (snd (search toLowerCase fuzzy keyword s)) = priv_reminders s
   \<and> snd (groupByTag s) = s"
proof (cases "priv_reminders s")
  case None
  then show ?thesis
    by (simp add: search_def searchTags_def groupByTag_def bind_def deref_reminders_def)
next
  case (Some rs)
  then show ?thesis
    by (simp add: search_Some searchDescriptions_Some groupByTag_Some)
qed

section \<open>The storage of a reachable handler\<close>

lemma reachable_initialised: "reachable s \<Longrightarrow> \<exists>rs. priv_reminders s = Some rs"
proof (induction rule: reachable.induct)
  case (created s)
  show ?case by (simp add: constructor_def)
next
  case (after_reminders s)
  then show ?case by (auto simp add: reminders_Some)
next
  case (after_addReminder s d t)
  then show ?case by (auto simp add: addReminder_Some)
next
  case (after_getReminder s index)
  then show ?case by (auto simp add: getReminder_Some)
next
  case (after_isIndexValid s index)
  then show ?case by (auto simp add: isIndexValid_Some)
next
  case (after_size s)
  then show ?case by (auto simp add: size_h_Some)
next
  case (after_modifyReminder s index d)
  then show ?case by (auto simp add: modifyReminder_Some)
next
  case (after_toggleCompletion s index)
  then show ?case by (auto simp add: toggleCompletion_Some)
next
  case (after_search s toLowerCase fuzzy keyword)
  then show ?case by (auto simp add: search_Some searchDescriptions_Some)
next
  case (after_groupByTag s)
  then show ?case by (auto simp add: groupByTag_Some)
next
  case (through_alias s rs rs')
  show ?case by simp
qed

text \<open>
  C9: on a handler that was constructed and then used through its public methods the
  getter \<^verbatim>\<open>reminders\<close> never takes its error branch: it returns the stored sequence,
  the empty one for an empty collection.
\<close>

theorem reminders_never_raises:
  assumes "reachable s"
  shows "fst (reminders s) \<noteq> Inl NoReminders
     \<and> (\<exists>rs. priv_reminders s = Some rs \<and> reminders s = (Inr rs, s))"
proof -
  from assms obtain rs where "priv_reminders s = Some rs"
    using reachable_initialised by blast
  then show ?thesis
    by (simp add: reminders_Some)
qed

theorem reminders_never_raises_witness:
  "reachable (constructor fresh) \<and> reminders (constructor fresh) = (Inr [], constructor fresh)
   \<and> reachable one_reminder
   \<and> reminders one_reminder =
       (Inr [\<lparr>description = ''buy milk'', tag = ''shopping'', isCompleted = False\<rparr>],
        one_reminder)"
proof -
  have r0: "reachable (constructor fresh)"
    by (rule reachable.created)
  have r1: "reachable one_reminder"
    unfolding one_reminder_def using r0 by (rule reachable.after_addReminder)
  from reminders_never_raises [OF r0] reminders_never_raises [OF r1] r0 r1
  show ?thesis
    by (auto simp add: one_reminder_eq constructor_fresh)
qed

section \<open>Grouping\<close>

lemma remdups_snoc:
  "remdups (ys @ [x]) = filter (\<lambda>y. y \<noteq> x) (remdups ys) @ [x]"
  by (induction ys) auto

lemma map_fst_push_group: "map fst (push_group k r g) = map fst g"
  by (induction g) (auto simp add: push_group_def)

lemma map_of_push_group:
  "map_of (push_group k r g) k' =
     (if k' = k then map_option (\<lambda>v. v @ [r]) (map_of g k) else map_of g k')"
  by (induction g) (auto simp add: push_group_def)

lemma group_step_own_key:
  assumes "tag r \<notin> set objectPrototypeKeys"
  shows "group_step r g =
     Inr (if tag r \<in> fst ` set g then push_group (tag r) r g else g @ [(tag r, [r])])"
proof (cases "tag r \<in> fst ` set g")
  case True
  then obtain v where "map_of g (tag r) = Some v"
    by (metis map_of_eq_None_iff not_Some_eq)
  with True show ?thesis
    by (simp add: group_step_def has_property_def)
next
  case False
  with assms show ?thesis
    by (simp add: group_step_def has_property_def)
qed

lemma forEach_group_result:
  assumes "\<forall>r \<in> set rs. tag r \<notin> set objectPrototypeKeys"
  shows "\<exists>g'. forEach_group rs g = Inr g'
     \<and> map fst g' =
         map fst g @ filter (\<lambda>k. k \<notin> fst ` set g) (rev (remdups (rev (map tag rs))))
     \<and> (\<forall>k. map_of g' k =
          (case map_of g k of
             Some v \<Rightarrow> Some (v @ filter (\<lambda>r. tag r = k) rs)
           | None \<Rightarrow> if k \<in> tag ` set rs then Some (filter (\<lambda>r. tag r = k) rs) else None))"
  using assms
proof (induction rs arbitrary: g)
  case Nil
  show ?case by (simp split: option.splits)
next
  case (Cons r rs)
  then have own: "tag r \<notin> set objectPrototypeKeys"
    and rest: "\<forall>r \<in> set rs. tag r \<notin> set objectPrototypeKeys"
    by simp_all
  let ?first = "rev (remdups (rev (map tag rs)))"
  have first: "rev (remdups (rev (map tag (r # rs)))) = tag r # filter (\<lambda>y. y \<noteq> tag r) ?first"
    by (simp add: remdups_snoc rev_filter)
  show ?case
  proof (cases "tag r \<in> fst ` set g")
    case True
    let ?g1 = "push_group (tag r) r g"
    from Cons.IH [OF rest, of ?g1] obtain g' where
      run: "forEach_group rs ?g1 = Inr g'" and
      keys: "map fst g' = map fst ?g1 @ filter (\<lambda>k. k \<notin> fst ` set ?g1) ?first" and
      groups: "\<And>k. map_of g' k =
          (case map_of ?g1 k of
             Some v \<Rightarrow> Some (v @ filter (\<lambda>r. tag r = k) rs)
           | None \<Rightarrow> if k \<in> tag ` set rs then Some (filter (\<lambda>r. tag r = k) rs) else None)"
      by blast
    have same: "fst ` set ?g1 = fst ` set g"
      using map_fst_push_group [of "tag r" r g] by (metis set_map)
    from True obtain v where v: "map_of g (tag r) = Some v"
      by (metis map_of_eq_None_iff not_Some_eq)
    have "forEach_group (r # rs) g = Inr g'"
      using True run by (simp add: group_step_own_key [OF own])
    moreover have "map fst g' =
        map fst g @ filter (\<lambda>k. k \<notin> fst ` set g) (rev (remdups (rev (map tag (r # rs)))))"
    proof -
      have "filter (\<lambda>k. k \<notin> fst ` set g) (filter (\<lambda>y. y \<noteq> tag r) ?first)
          = filter (\<lambda>k. k \<notin> fst ` set g) ?first"
        using True by (auto intro: filter_cong)
      with True keys same show ?thesis
        unfolding first by (simp add: map_fst_push_group)
    qed
    moreover have "\<forall>k. map_of g' k =
          (case map_of g k of
             Some v \<Rightarrow> Some (v @ filter (\<lambda>x. tag x = k) (r # rs))
           | None \<Rightarrow> if k \<in> tag ` set (r # rs)
               then Some (filter (\<lambda>x. tag x = k) (r # rs)) else None)"
      using v by (auto simp add: groups map_of_push_group split: option.splits)
    ultimately show ?thesis by blast
  next
    case False
    let ?g1 = "g @ [(tag r, [r])]"
    from Cons.IH [OF rest, of ?g1] obtain g' where
      run: "forEach_group rs ?g1 = Inr g'" and
      keys: "map fst g' = map fst ?g1 @ filter (\<lambda>k. k \<notin> fst ` set ?g1) ?first" and
      groups: "\<And>k. map_of g' k =
          (case map_of ?g1 k of
             Some v \<Rightarrow> Some (v @ filter (\<lambda>r. tag r = k) rs)
           | None \<Rightarrow> if k \<in> tag ` set rs then Some (filter (\<lambda>r. tag r = k) rs) else None)"
      by blast
    from False have none: "map_of g (tag r) = None"
      by (simp add: map_of_eq_None_iff)
    have "forEach_group (r # rs) g = Inr g'"
      using False run by (simp add: group_step_own_key [OF own])
    moreover have "map fst g' =
        map fst g @ filter (\<lambda>k. k \<notin> fst ` set g) (rev (remdups (rev (map tag (r # rs)))))"
    proof -
      have "filter (\<lambda>k. k \<notin> fst ` set ?g1) ?first
          = filter (\<lambda>k. k \<notin> fst ` set g) (filter (\<lambda>y. y \<noteq> tag r) ?first)"
        by (auto intro: filter_cong)
      with False keys show ?thesis
        unfolding first by simp
    qed
    moreover have "\<forall>k. map_of g' k =
          (case map_of g k of
             Some v \<Rightarrow> Some (v @ filter (\<lambda>x. tag x = k) (r # rs))
           | None \<Rightarrow> if k \<in> tag ` set (r # rs)
               then Some (filter (\<lambda>x. tag x = k) (r # rs)) else None)"
      using none by (auto simp add: groups map_add_def split: option.splits)
    ultimately show ?thesis by blast
  qed
qed

text \<open>
  C5, as the code has it: where no tag is the name of a property that the object inherits
  from \<^verbatim>\<open>Object.prototype\<close>, \<^verbatim>\<open>groupByTag\<close> returns an object with one property for
  each tag, compared as it is written, whose value is the list of the reminders carrying
  that tag in the order of the collection. The properties are created in the order in
  which their first member was met (\<open>remdups\<close> keeps the last occurrence of an element,
  so between the two reversals the first one is kept). The object enumerates the tags
  that are array indices first, in ascending numeric order, and then the other tags in
  the order in which their first member was met; this is the order of first encounter
  whenever no tag is an array index.
\<close>

theorem groupByTag_groups:
  assumes "priv_reminders s = Some rs"
    and "\<forall>r \<in> set rs. tag r \<notin> set objectPrototypeKeys"
  shows "\<exists>g. groupByTag s = (Inr g, s)
     \<and> map fst g = rev (remdups (rev (map tag rs)))
     \<and> (\<forall>t. map_of g t =
          (if t \<in> tag ` set rs then Some (filter (\<lambda>r. tag r = t) rs) else None))
     \<and> ownKeys g =
         sort_key dec_val (filter is_array_index (rev (remdups (rev (map tag rs)))))
         @ filter (\<lambda>k. \<not> is_array_index k) (rev (remdups (rev (map tag rs))))
     \<and> ((\<forall>r \<in> set rs. \<not> is_array_index (tag r))
          \<longrightarrow> ownKeys g = rev (remdups (rev (map tag rs))))"
proof -
  from forEach_group_result [OF assms(2), of "[]"] obtain g where
    run: "forEach_group rs [] = Inr g" and
    keys: "map fst g = rev (remdups (rev (map tag rs)))" and
    groups: "\<forall>k. map_of g k =
       (if k \<in> tag ` set rs then Some (filter (\<lambda>r. tag r = k) rs) else None)"
    by auto
  have "groupByTag s = (Inr g, s)"
    using assms(1) run by (simp add: groupByTag_Some)
  moreover have "ownKeys g =
      sort_key dec_val (filter is_array_index (rev (remdups (rev (map tag rs)))))
      @ filter (\<lambda>k. \<not> is_array_index k) (rev (remdups (rev (map tag rs))))"
    by (simp only: ownKeys_def keys)
  moreover have "ownKeys g = rev (remdups (rev (map tag rs)))"
    if "\<forall>r \<in> set rs. \<not> is_array_index (tag r)"
  proof -
    from that have "\<forall>k \<in> set (map fst g). \<not> is_array_index k"
      by (auto simp add: keys)
    then have "filter is_array_index (map fst g) = []"
      and "filter (\<lambda>k. \<not> is_array_index k) (map fst g) = map fst g"
      by (simp_all add: filter_empty_conv)
    then show ?thesis
      by (simp add: ownKeys_def keys)
  qed
  ultimately show ?thesis
    using keys groups by blast
qed

theorem groupByTag_groups_witness:
  "priv_reminders work_home =
     Some [\<lparr>description = ''write report'', tag = ''Work'', isCompleted = False\<rparr>,
           \<lparr>description = ''send invoice'', tag = ''work'', isCompleted = False\<rparr>,
           \<lparr>description = ''water plants'', tag = ''Home'', isCompleted = False\<rparr>,
           \<lparr>description = ''call mum'', tag = ''Work'', isCompleted = False\<rparr>]
   \<and> (\<exists>g. groupByTag work_home = (Inr g, work_home)
        \<and> ownKeys g = [''Work'', ''work'', ''Home'']
        \<and> map_of g ''Work'' =
            Some [\<lparr>description = ''write report'', tag = ''Work'', isCompleted = False\<rparr>,
                  \<lparr>description = ''call mum'', tag = ''Work'', isCompleted = False\<rparr>]
        \<and> map_of g ''work'' =
            Some [\<lparr>description = ''send invoice'', tag = ''work'', isCompleted = False\<rparr>]
        \<and> map_of g ''Home'' =
            Some [\<lparr>description = ''water plants'', tag = ''Home'', isCompleted = False\<rparr>]
        \<and> map_of g ''home'' = None)"
proof -
  let ?rs = "[\<lparr>description = ''write report'', tag = ''Work'', isCompleted = False\<rparr>,
              \<lparr>description = ''send invoice'', tag = ''work'', isCompleted = False\<rparr>,
              \<lparr>description = ''water plants'', tag = ''Home'', isCompleted = False\<rparr>,
              \<lparr>description = ''call mum'', tag = ''Work'', isCompleted = False\<rparr>]"
  have h1: "priv_reminders work_home = Some ?rs"
    by (simp add: work_home_eq)
  have h2: "\<forall>r \<in> set ?rs. tag r \<notin> set objectPrototypeKeys"
    by (simp add: objectPrototypeKeys_def)
  have h3: "\<forall>r \<in> set ?rs. \<not> is_array_index (tag r)"
    by (simp add: is_array_index_def is_digit_def)
  from groupByTag_groups [OF h1 h2] obtain g where
    "groupByTag work_home = (Inr g, work_home)"
    "\<forall>t. map_of g t = (if t \<in> tag ` set ?rs then Some (filter (\<lambda>r. tag r = t) ?rs) else None)"
    "(\<forall>r \<in> set ?rs. \<not> is_array_index (tag r))
       \<longrightarrow> ownKeys g = rev (remdups (rev (map tag ?rs)))"
    by blast
  with h3 have "groupByTag work_home = (Inr g, work_home)
      \<and> ownKeys g = [''Work'', ''work'', ''Home'']
      \<and> map_of g ''Work'' =
          Some [\<lparr>description = ''write report'', tag = ''Work'', isCompleted = False\<rparr>,
                \<lparr>description = ''call mum'', tag = ''Work'', isCompleted = False\<rparr>]
      \<and> map_of g ''work'' =
          Some [\<lparr>description = ''send invoice'', tag = ''work'', isCompleted = False\<rparr>]
      \<and> map_of g ''Home'' =
          Some [\<lparr>description = ''water plants'', tag = ''Home'', isCompleted = False\<rparr>]
      \<and> map_of g ''home'' = None"
    by simp
  with h1 show ?thesis
    by blast
qed

text \<open>
  C5 as it is stated fails on the tags \<open>2\<close> and \<open>1\<close>, added in this order: the group
  of \<open>1\<close> is enumerated first.
\<close>

theorem groupByTag_numeric_tags_reordered:
  "fst (groupByTag numeric_tags) =
     Inr [(''2'', [\<lparr>description = ''first'', tag = ''2'', isCompleted = False\<rparr>]),
          (''1'', [\<lparr>description = ''second'', tag = ''1'', isCompleted = False\<rparr>])]
   \<and> ownKeys [(''2'', [\<lparr>description = ''first'', tag = ''2'', isCompleted = False\<rparr>]),
              (''1'', [\<lparr>description = ''second'', tag = ''1'', isCompleted = False\<rparr>])]
       = [''1'', ''2'']
   \<and> ownKeys [(''2'', [\<lparr>description = ''first'', tag = ''2'', isCompleted = False\<rparr>]),
              (''1'', [\<lparr>description = ''second'', tag = ''1'', isCompleted = False\<rparr>])]
       \<noteq> rev (remdups (rev (map tag
           [\<lparr>description = ''first'', tag = ''2'', isCompleted = False\<rparr>,
            \<lparr>description = ''second'', tag = ''1'', isCompleted = False\<rparr>])))"
  by (simp add: numeric_tags_eq groupByTag_Some group_step_def has_property_def
      objectPrototypeKeys_def push_group_def ownKeys_def is_array_index_def is_digit_def
      dec_val_def)

text \<open>
  A tag that names an inherited property makes \<^verbatim>\<open>in\<close> hold on the empty object, and
  the call of \<^verbatim>\<open>push\<close> on the inherited value raises a TypeError.
\<close>

lemma groupByTag_inherited_key:
  "groupByTag (snd (addReminder ''override'' ''toString'' (constructor fresh)))
     = (Inl TypeError, snd (addReminder ''override'' ''toString'' (constructor fresh)))"
  by (simp add: constructor_fresh addReminder_Some groupByTag_Some group_step_def
      has_property_def objectPrototypeKeys_def newReminder_def)

end
